theory Spec2Isabelle
  imports Complex_Main "HOL-Library.Word" "HOL-Library.Sublist"
begin

section \<open>Python values used by the atlas scripts\<close>

text \<open>
  The two atlas scripts are Python. Exceptions are values of \<open>error\<close>; a call that may
  raise returns \<open>error + 'a\<close> with \<open>Inl\<close> for the exception. Python integers are \<open>int\<close>;
  strings are \<open>string\<close>, restricted to ASCII text.
\<close>

datatype error = ValueError | FileExistsError | OtherError

subsection \<open>The built-in \<open>int(s, 16)\<close>\<close>

text \<open>
  \<open>int(s, 16)\<close> skips surrounding ASCII white space, accepts one sign, an optional
  \<open>0x\<close> prefix and single underscores between digits, and raises \<open>ValueError\<close> on
  anything else, the empty string included.
\<close>

definition is_space :: "char \<Rightarrow> bool" where
  "is_space c = (c \<in> set [CHR 0x09, CHR 0x0A, CHR 0x0B, CHR 0x0C, CHR 0x0D, CHR 0x20])"

definition hex_digit_value :: "char \<Rightarrow> nat option" where
  "hex_digit_value c =
     (let n = (of_char c :: nat) in
      if 48 \<le> n \<and> n \<le> 57 then Some (n - 48)
      else if 97 \<le> n \<and> n \<le> 102 then Some (n - 87)
      else if 65 \<le> n \<and> n \<le> 70 then Some (n - 55)
      else None)"

definition is_hex_digit :: "char \<Rightarrow> bool" where
  "is_hex_digit c = (case hex_digit_value c of None \<Rightarrow> False | Some _ \<Rightarrow> True)"

definition is_body_char :: "char \<Rightarrow> bool" where
  "is_body_char c = (if c = CHR ''_'' then True else is_hex_digit c)"

definition split_sign :: "string \<Rightarrow> int \<times> string" where
  "split_sign s =
     (case s of
        [] \<Rightarrow> (1, s)
      | c # r \<Rightarrow> if c = CHR ''+'' then (1, r) else if c = CHR ''-'' then (- 1, r) else (1, s))"

definition strip_prefix16 :: "string \<Rightarrow> string" where
  "strip_prefix16 s =
     (case s of
        c # d # r \<Rightarrow>
          if c = CHR ''0'' \<and> (d = CHR ''x'' \<or> d = CHR ''X'')
          then (case r of [] \<Rightarrow> r | u # r' \<Rightarrow> if u = CHR ''_'' then r' else r)
          else s
      | _ \<Rightarrow> s)"

fun double_underscore :: "string \<Rightarrow> bool" where
  "double_underscore (c # d # r) =
     (if c = CHR ''_'' \<and> d = CHR ''_'' then True else double_underscore (d # r))"
| "double_underscore _ = False"

definition starts_with_underscore :: "string \<Rightarrow> bool" where
  "starts_with_underscore s = (case s of [] \<Rightarrow> False | c # _ \<Rightarrow> c = CHR ''_'')"

fun digit_values :: "string \<Rightarrow> nat list" where
  "digit_values [] = []"
| "digit_values (c # r) =
     (case hex_digit_value c of None \<Rightarrow> digit_values r | Some d \<Rightarrow> d # digit_values r)"

definition hex_value :: "nat list \<Rightarrow> nat" where
  "hex_value ds = foldl (\<lambda>v d. 16 * v + d) 0 ds"

definition py_int16 :: "string \<Rightarrow> error + int" where
  "py_int16 s =
     (case split_sign (dropWhile is_space s) of
        (sign, s2) \<Rightarrow>
          (let s3 = strip_prefix16 s2;
               body = takeWhile is_body_char s3;
               rest = dropWhile is_body_char s3;
               ds = digit_values body
           in if starts_with_underscore s3 then Inl ValueError
              else if double_underscore body then Inl ValueError
              else if starts_with_underscore (rev body) then Inl ValueError
              else if ds = [] then Inl ValueError
              else if dropWhile is_space rest = [] then Inr (sign * int (hex_value ds))
              else Inl ValueError))"

section \<open>Flattening the region hierarchy\<close>

text \<open>
  A node of the hierarchy file is a JSON object with the keys \<open>id\<close>, \<open>name\<close>,
  \<open>acronym\<close>, \<open>color_hex_triplet\<close> and, optionally, \<open>children\<close>. A flattened
  record has the five keys that \<open>flatten_structure_tree\<close> writes.
\<close>

datatype json_node =
  JNode (node_id: int) (node_name: string) (node_acronym: string)
        (color_hex_triplet: string) (children: "json_node list option")

record structure_record =
  structure_id :: int
  name :: string
  acronym :: string
  structure_id_path :: "int list"
  rgb_triplet :: "int list"

text \<open>\<open>hex_string.lstrip("#")\<close>, then \<open>int(hex_string[i : i + 2], 16)\<close> for \<open>i\<close> in 0, 2, 4.\<close>

definition hex_to_rgb :: "string \<Rightarrow> error + int list" where
  "hex_to_rgb hex_string =
     (let h = dropWhile (\<lambda>c. c = CHR ''#'') hex_string in
      case py_int16 (take 2 (drop 0 h)) of
        Inl e \<Rightarrow> Inl e
      | Inr r \<Rightarrow>
          (case py_int16 (take 2 (drop 2 h)) of
             Inl e \<Rightarrow> Inl e
           | Inr g \<Rightarrow>
               (case py_int16 (take 2 (drop 4 h)) of
                  Inl e \<Rightarrow> Inl e
                | Inr b \<Rightarrow> Inr [r, g, b])))"

text \<open>
  \<open>flatten_structure_tree\<close> with its optional argument; \<open>extend_children\<close> is the
  loop over \<open>node["children"]\<close>, which extends \<open>entries\<close> by each child's records and
  stops at the first exception.
\<close>

fun flatten_structure_tree :: "json_node \<Rightarrow> int list option \<Rightarrow> error + structure_record list"
  and extend_children ::
    "json_node list \<Rightarrow> int list \<Rightarrow> structure_record list \<Rightarrow> error + structure_record list"
where
  "flatten_structure_tree (JNode i n a c ch) structure_id_path_arg =
     (let start = (case structure_id_path_arg of None \<Rightarrow> [] | Some p \<Rightarrow> p);
          current_path = start @ [i]
      in case hex_to_rgb c of
           Inl e \<Rightarrow> Inl e
         | Inr rgb \<Rightarrow>
             (let entry = \<lparr>structure_id = i, name = n, acronym = a,
                           structure_id_path = current_path, rgb_triplet = rgb\<rparr>;
                  entries = [entry]
              in case ch of
                   None \<Rightarrow> Inr entries
                 | Some cs \<Rightarrow> extend_children cs current_path entries))"
| "extend_children [] current_path entries = Inr entries"
| "extend_children (child # rest) current_path entries =
     (case flatten_structure_tree child (Some current_path) of
        Inl e \<Rightarrow> Inl e
      | Inr rs \<Rightarrow> extend_children rest current_path (entries @ rs))"

section \<open>The annotation volume and the structure list\<close>

text \<open>
  The annotation volume is a three-dimensional array of integer labels. \<open>np.unique\<close>
  flattens it and returns the distinct values in ascending order; \<open>astype(np.int32)\<close>
  keeps the low 32 bits of each value, read as a signed number.
\<close>

type_synonym volume = "int list list list"

definition ravel :: "volume \<Rightarrow> int list" where
  "ravel v = concat (concat v)"

definition np_unique :: "volume \<Rightarrow> int list" where
  "np_unique v = sort (remdups (ravel v))"

definition astype_int32 :: "int \<Rightarrow> int" where
  "astype_int32 x = sint (word_of_int x :: 32 word)"

text \<open>\<open>labels = np.unique(annotated_volume).astype(np.int32)\<close>\<close>

definition labels_of :: "volume \<Rightarrow> int list" where
  "labels_of annotated_volume = map astype_int32 (np_unique annotated_volume)"

text \<open>
  \<open>present_ids = set(np.unique(annotation))\<close>, then the list comprehension over
  \<open>structures\<close>. A Python integer and a NumPy integer of the same value are equal and
  hash alike, so membership compares values.
\<close>

definition filter_structures_not_present_in_annotation ::
  "structure_record list \<Rightarrow> volume \<Rightarrow> structure_record list" where
  "filter_structures_not_present_in_annotation structures annotation =
     (let present_ids = set (np_unique annotation)
      in filter (\<lambda>s. structure_id s \<in> present_ids) structures)"

section \<open>The structure tree and the mesh directory\<close>

text \<open>
  \<open>get_structures_tree\<close> returns a tree whose \<open>nodes\<close> dictionary maps each
  identifier to its node, in insertion order; it is represented by the list of its
  nodes, each registered under its own identifier (\<open>tree_identifier\<close>). The tagging
  loop stores \<open>Region(is_label)\<close> in the \<open>data\<close> attribute of every node.
\<close>

datatype region = Region (is_label: bool)

record tree_node =
  tree_identifier :: int
  tag :: string
  predecessor :: "int option"
  data :: "region option"

record tree =
  nodes :: "tree_node list"

definition items :: "tree \<Rightarrow> (int \<times> tree_node) list" where
  "items t = map (\<lambda>node. (tree_identifier node, node)) (nodes t)"

fun tagging_loop :: "int list \<Rightarrow> (int \<times> tree_node) list \<Rightarrow> tree_node list" where
  "tagging_loop labels [] = []"
| "tagging_loop labels ((key, node) # rest) =
     (let is_label = (if key \<in> set labels then True else False)
      in node\<lparr>data := Some (Region is_label)\<rparr> # tagging_loop labels rest)"

text \<open>
  A path is the list of its components; \<open>p / name\<close> appends one. The file system is
  the map from the paths of the regular files to their contents, so that
  \<open>Path.exists\<close> is definedness and \<open>st_size\<close> the length of the contents;
  directories are not represented, and \<open>download_path\<close> is taken to be an existing
  directory, which both scripts create before the call. Printing and timing are not
  represented, nor is \<open>structures_with_mesh\<close>, which is only counted for a message.
\<close>

type_synonym path = "string list"

type_synonym filesystem = "path \<rightharpoonup> string"

definition path_div :: "path \<Rightarrow> string \<Rightarrow> path" where
  "path_div p component = p @ [component]"

definition digit_char :: "nat \<Rightarrow> char" where
  "digit_char d = ''0123456789'' ! d"

fun str_nat :: "nat \<Rightarrow> string" where
  "str_nat n = (if n < 10 then [digit_char n] else str_nat (n div 10) @ [digit_char (n mod 10)])"

declare str_nat.simps [simp del]

definition str_int :: "int \<Rightarrow> string" where
  "str_int i = (if i < 0 then CHR ''-'' # str_nat (nat (- i)) else str_nat (nat i))"

text \<open>\<open>meshes_dir_path / f'{s["id"]}.obj'\<close>\<close>

definition obj_path :: "path \<Rightarrow> int \<Rightarrow> path" where
  "obj_path meshes_dir_path i = path_div meshes_dir_path (str_int i @ ''.obj'')"

text \<open>\<open>mkdir(exist_ok=True)\<close> raises when the path is a regular file.\<close>

definition mkdir_exist_ok :: "path \<Rightarrow> filesystem \<Rightarrow> error option \<times> filesystem" where
  "mkdir_exist_ok p fs = (case fs p of Some _ \<Rightarrow> (Some FileExistsError, fs) | None \<Rightarrow> (None, fs))"

text \<open>The tuple that both scripts pass to \<open>create_region_mesh\<close>.\<close>

record mesh_args =
  meshes_dir_path :: path
  node :: tree_node
  tree_arg :: tree
  labels :: "int list"
  annotated_volume :: volume
  root_id :: int
  closing_n_iters :: nat
  decimate_fraction :: rat
  smooth :: bool

type_synonym mesh_maker = "mesh_args \<Rightarrow> filesystem \<Rightarrow> error option \<times> filesystem"

text \<open>
  The loop over \<open>tree.nodes.values()\<close>. \<open>create_region_mesh\<close> is imported from
  \<open>mesh_utils\<close>; it is a parameter here: a call reads its arguments, changes the file
  system and either returns or raises. The loop has no handler, so an exception leaves
  it at once.
  \<open>mesh_loop_calls\<close> lists the nodes on which the loop calls \<open>create_region_mesh\<close>.
\<close>

fun mesh_loop ::
  "mesh_maker \<Rightarrow> (tree_node \<Rightarrow> mesh_args) \<Rightarrow> tree_node list \<Rightarrow> filesystem
     \<Rightarrow> error option \<times> filesystem" where
  "mesh_loop create_region_mesh args [] fs = (None, fs)"
| "mesh_loop create_region_mesh args (n # rest) fs =
     (case create_region_mesh (args n) fs of
        (Some e, fs') \<Rightarrow> (Some e, fs')
      | (None, fs') \<Rightarrow> mesh_loop create_region_mesh args rest fs')"

fun mesh_loop_calls ::
  "mesh_maker \<Rightarrow> (tree_node \<Rightarrow> mesh_args) \<Rightarrow> tree_node list \<Rightarrow> filesystem
     \<Rightarrow> tree_node list" where
  "mesh_loop_calls create_region_mesh args [] fs = []"
| "mesh_loop_calls create_region_mesh args (n # rest) fs =
     n # (case create_region_mesh (args n) fs of
            (Some e, fs') \<Rightarrow> []
          | (None, fs') \<Rightarrow> mesh_loop_calls create_region_mesh args rest fs')"

text \<open>The loop that builds \<open>meshes_dict\<close>, with its two \<open>continue\<close> branches.\<close>

fun meshes_dict_loop ::
  "path \<Rightarrow> filesystem \<Rightarrow> structure_record list \<Rightarrow> (int \<rightharpoonup> path) \<Rightarrow> (int \<rightharpoonup> path)" where
  "meshes_dict_loop dir fs [] meshes_dict = meshes_dict"
| "meshes_dict_loop dir fs (s # rest) meshes_dict =
     (let mesh_path = obj_path dir (structure_id s)
      in case fs mesh_path of
           None \<Rightarrow> meshes_dict_loop dir fs rest meshes_dict
         | Some content \<Rightarrow>
             if length content < 512 then meshes_dict_loop dir fs rest meshes_dict
             else meshes_dict_loop dir fs rest (meshes_dict(structure_id s \<mapsto> mesh_path)))"

text \<open>
  The body shared by the two scripts, which differ in the order of the arguments and in
  \<open>decimate_fraction\<close>; it is split at its comments. \<open>tag_tree\<close> is the loop that
  attaches \<open>Region(is_label)\<close>, \<open>region_mesh_args\<close> the tuple built for one node,
  \<open>mesh_creation\<close> the loop under \<open># Mesh creation\<close>. \<open>get_structures_tree\<close> is
  imported from \<open>structure_tree_util\<close> and is a parameter.
\<close>

definition tag_tree :: "volume \<Rightarrow> tree \<Rightarrow> tree" where
  "tag_tree volume t0 = t0\<lparr>nodes := tagging_loop (labels_of volume) (items t0)\<rparr>"

definition region_mesh_args ::
  "int \<Rightarrow> rat \<Rightarrow> path \<Rightarrow> volume \<Rightarrow> tree \<Rightarrow> tree_node \<Rightarrow> mesh_args" where
  "region_mesh_args root_label fraction dir volume t n =
     \<lparr>meshes_dir_path = dir, node = n, tree_arg = t, labels = labels_of volume,
      annotated_volume = volume, root_id = root_label, closing_n_iters = 2,
      decimate_fraction = fraction, smooth = False\<rparr>"

definition mesh_creation ::
  "int \<Rightarrow> rat \<Rightarrow> mesh_maker \<Rightarrow> path \<Rightarrow> volume \<Rightarrow> tree \<Rightarrow> filesystem
     \<Rightarrow> error option \<times> filesystem" where
  "mesh_creation root_label fraction create_region_mesh dir volume t fs =
     mesh_loop create_region_mesh (region_mesh_args root_label fraction dir volume t) (nodes t) fs"

definition mesh_creation_calls ::
  "int \<Rightarrow> rat \<Rightarrow> mesh_maker \<Rightarrow> path \<Rightarrow> volume \<Rightarrow> tree \<Rightarrow> filesystem
     \<Rightarrow> tree_node list" where
  "mesh_creation_calls root_label fraction create_region_mesh dir volume t fs =
     mesh_loop_calls create_region_mesh (region_mesh_args root_label fraction dir volume t)
       (nodes t) fs"

definition construct_meshes ::
  "int \<Rightarrow> rat \<Rightarrow> (structure_record list \<Rightarrow> error + tree) \<Rightarrow> mesh_maker
     \<Rightarrow> path \<Rightarrow> volume \<Rightarrow> structure_record list \<Rightarrow> filesystem
     \<Rightarrow> (error + (int \<rightharpoonup> path)) \<times> filesystem" where
  "construct_meshes root_label fraction get_structures_tree create_region_mesh
       download_path volume structures fs =
     (let dir = path_div download_path ''meshes'' in
      case mkdir_exist_ok dir fs of
        (Some e, fs1) \<Rightarrow> (Inl e, fs1)
      | (None, fs1) \<Rightarrow>
          (case get_structures_tree structures of
             Inl e \<Rightarrow> (Inl e, fs1)
           | Inr t0 \<Rightarrow>
               (case mesh_creation root_label fraction create_region_mesh dir volume
                       (tag_tree volume t0) fs1 of
                  (Some e, fs2) \<Rightarrow> (Inl e, fs2)
                | (None, fs2) \<Rightarrow>
                    (Inr (meshes_dict_loop dir fs2 structures Map.empty), fs2))))"

text \<open>\<open>allen_bbp_ccfv3a_entire_mouse_brain.py\<close>: \<open>METADATA.root_id\<close> is 997.\<close>

definition retrieve_or_construct_meshes ::
  "(structure_record list \<Rightarrow> error + tree) \<Rightarrow> mesh_maker
     \<Rightarrow> path \<Rightarrow> volume \<Rightarrow> structure_record list \<Rightarrow> filesystem
     \<Rightarrow> (error + (int \<rightharpoonup> path)) \<times> filesystem" where
  "retrieve_or_construct_meshes get_structures_tree create_region_mesh
       download_path volume structures fs =
     construct_meshes 997 0 get_structures_tree create_region_mesh
       download_path volume structures fs"

text \<open>\<open>demba_dev_mouse.py\<close>: \<open>ROOT_ID\<close> is 997 and \<open>decimate_fraction\<close> is 0.2.\<close>

definition retrieve_or_construct_meshes_demba ::
  "(structure_record list \<Rightarrow> error + tree) \<Rightarrow> mesh_maker
     \<Rightarrow> structure_record list \<Rightarrow> volume \<Rightarrow> path \<Rightarrow> filesystem
     \<Rightarrow> (error + (int \<rightharpoonup> path)) \<times> filesystem" where
  "retrieve_or_construct_meshes_demba get_structures_tree create_region_mesh
       structures volume download_dir_path fs =
     construct_meshes 997 (2 / 10) get_structures_tree create_region_mesh
       download_dir_path volume structures fs"

text \<open>
  Modelled from the spec: \<open>create_region_mesh\<close> of \<open>mesh_utils\<close>, which is not
  among the sources. The mesh writer skips a node whose file already exists in the
  output directory; otherwise it writes the mesh to the file named by the node's id,
  and writes nothing for an empty region. Mask aggregation, surface extraction and
  post-processing are the parameter \<open>mesh_of\<close>, which gives the serialised mesh of a
  node, or \<open>None\<close> for an empty region.
\<close>

definition create_region_mesh :: "(mesh_args \<Rightarrow> string option) \<Rightarrow> mesh_maker" where
  "create_region_mesh mesh_of a fs =
     (let savepath = obj_path (meshes_dir_path a) (tree_identifier (node a))
      in case fs savepath of
           Some _ \<Rightarrow> (None, fs)
         | None \<Rightarrow>
             (case mesh_of a of
                None \<Rightarrow> (None, fs)
              | Some bytes \<Rightarrow> (None, fs(savepath \<mapsto> bytes))))"

section \<open>Notions of the specification\<close>

text \<open>A value occurs in the volume when some voxel carries it.\<close>

definition occurs_in :: "volume \<Rightarrow> int \<Rightarrow> bool" where
  "occurs_in v x = (\<exists>plane \<in> set v. \<exists>row \<in> set plane. x \<in> set row)"

definition in_int32_range :: "volume \<Rightarrow> bool" where
  "in_int32_range v = list_all (\<lambda>x. - 2147483648 \<le> x \<and> x \<le> 2147483647) (ravel v)"

text \<open>A mesh file is usable when it exists and holds at least 512 bytes.\<close>

definition usable :: "filesystem \<Rightarrow> path \<Rightarrow> bool" where
  "usable fs p = (case fs p of None \<Rightarrow> False | Some content \<Rightarrow> 512 \<le> length content)"

text \<open>
  The catalog holds exactly the ids of the listed structures whose mesh file is usable,
  each mapped to the path of that file.
\<close>

definition catalog_of_usable ::
  "path \<Rightarrow> filesystem \<Rightarrow> structure_record list \<Rightarrow> (int \<rightharpoonup> path) \<Rightarrow> bool" where
  "catalog_of_usable dir fs structures meshes_dict =
     ((\<forall>s \<in> set structures.
         (structure_id s \<in> dom meshes_dict) = usable fs (obj_path dir (structure_id s)))
      \<and> (\<forall>k p. meshes_dict k = Some p \<longrightarrow>
             p = obj_path dir k \<and> usable fs p \<and> k \<in> structure_id ` set structures))"

text \<open>
  A colour string is well formed when it consists of six hexadecimal digits after any
  leading \<open>#\<close> characters; \<open>pair_value h k\<close> is the base-16 value of the \<open>k\<close>-th pair
  of digits of \<open>h\<close>. A colour string parses when \<open>hex_to_rgb\<close> returns for it.
\<close>

definition digit_of :: "char \<Rightarrow> nat" where
  "digit_of c = (case hex_digit_value c of None \<Rightarrow> 0 | Some d \<Rightarrow> d)"

definition pair_value :: "string \<Rightarrow> nat \<Rightarrow> int" where
  "pair_value h k = int (16 * digit_of (h ! (2 * k)) + digit_of (h ! (2 * k + 1)))"

definition hex_colour :: "string \<Rightarrow> bool" where
  "hex_colour s =
     (let h = dropWhile (\<lambda>c. c = CHR ''#'') s in length h = 6 \<and> list_all is_hex_digit h)"

definition parses :: "string \<Rightarrow> bool" where
  "parses s = (case hex_to_rgb s of Inl _ \<Rightarrow> False | Inr _ \<Rightarrow> True)"

text \<open>
  The nodes of a hierarchy in pre-order: a node, then the subtrees of its children from
  first to last. \<open>record_of r n\<close> says that \<open>r\<close> is the record written for node \<open>n\<close>.
\<close>

definition child_nodes :: "json_node \<Rightarrow> json_node list" where
  "child_nodes n = (case children n of None \<Rightarrow> [] | Some cs \<Rightarrow> cs)"

fun preorder :: "json_node \<Rightarrow> json_node list"
  and preorder_list :: "json_node list \<Rightarrow> json_node list" where
  "preorder (JNode i n a c ch) =
     JNode i n a c ch # (case ch of None \<Rightarrow> [] | Some cs \<Rightarrow> preorder_list cs)"
| "preorder_list [] = []"
| "preorder_list (child # rest) = preorder child @ preorder_list rest"

definition record_of :: "structure_record \<Rightarrow> json_node \<Rightarrow> bool" where
  "record_of r n =
     (structure_id r = node_id n \<and> name r = node_name n \<and> acronym r = node_acronym n
      \<and> hex_to_rgb (color_hex_triplet n) = Inr (rgb_triplet r))"

text \<open>
  \<open>well_pathed parent_path n rs\<close>: the list \<open>rs\<close> starts with the record of \<open>n\<close>, whose
  path is \<open>parent_path\<close> followed by the id of \<open>n\<close>, and continues with the records of
  the subtrees of the children of \<open>n\<close>, each well pathed under the path of that record.
\<close>

inductive well_pathed :: "int list \<Rightarrow> json_node \<Rightarrow> structure_record list \<Rightarrow> bool" where
  "record_of r n \<Longrightarrow> structure_id_path r = parent_path @ [node_id n]
     \<Longrightarrow> list_all2 (well_pathed (structure_id_path r)) (child_nodes n) rss
     \<Longrightarrow> well_pathed parent_path n (r # concat rss)"

text \<open>The path that \<open>flatten_structure_tree\<close> starts from: empty when the argument is \<open>None\<close>.\<close>

definition start_path :: "int list option \<Rightarrow> int list" where
  "start_path p = (case p of None \<Rightarrow> [] | Some q \<Rightarrow> q)"

section \<open>Example inputs\<close>

text \<open>
  A two-node hierarchy, a tree builder that registers one node per structure, and mesh
  makers that write a file for every node or raise at node 1.
\<close>

definition example_tree :: "structure_record list \<Rightarrow> error + tree" where
  "example_tree structures =
     Inr \<lparr>nodes = map (\<lambda>s. \<lparr>tree_identifier = structure_id s, tag = acronym s,
                              predecessor = None, data = None\<rparr>) structures\<rparr>"

definition example_structures :: "structure_record list" where
  "example_structures =
     [\<lparr>structure_id = 1, name = ''root'', acronym = ''r'', structure_id_path = [1],
        rgb_triplet = [255, 255, 255]\<rparr>,
      \<lparr>structure_id = 2, name = ''a'', acronym = ''a'', structure_id_path = [1, 2],
        rgb_triplet = [0, 0, 0]\<rparr>]"

definition example_maker :: mesh_maker where
  "example_maker a fs =
     (None, fs(obj_path (meshes_dir_path a) (tree_identifier (node a)) \<mapsto>
                 replicate (if tree_identifier (node a) = 1 then 600 else 3) CHR ''v''))"

definition failing_maker :: mesh_maker where
  "failing_maker a fs =
     (if tree_identifier (node a) = 1 then (Some OtherError, fs)
      else (None, fs(obj_path (meshes_dir_path a) (tree_identifier (node a)) \<mapsto>
                       replicate 600 CHR ''v'')))"

definition example_mesh_of :: "mesh_args \<Rightarrow> string option" where
  "example_mesh_of a = Some (replicate 600 CHR ''v'')"

text \<open>A hierarchy of four nodes and the records that flattening it gives.\<close>

definition example_hierarchy :: json_node where
  "example_hierarchy =
     JNode 997 ''root'' ''root'' ''FFFFFF''
       (Some [JNode 8 ''Basic cell groups'' ''grey'' ''#BFDAE3''
                (Some [JNode 567 ''Cerebrum'' ''CH'' ''b0f0ff'' None]),
              JNode 73 ''ventricular systems'' ''VS'' ''AAAAAA'' (Some [])])"

definition example_records :: "structure_record list" where
  "example_records =
     [\<lparr>structure_id = 997, name = ''root'', acronym = ''root'',
        structure_id_path = [997], rgb_triplet = [255, 255, 255]\<rparr>,
      \<lparr>structure_id = 8, name = ''Basic cell groups'', acronym = ''grey'',
        structure_id_path = [997, 8], rgb_triplet = [191, 218, 227]\<rparr>,
      \<lparr>structure_id = 567, name = ''Cerebrum'', acronym = ''CH'',
        structure_id_path = [997, 8, 567], rgb_triplet = [176, 240, 255]\<rparr>,
      \<lparr>structure_id = 73, name = ''ventricular systems'', acronym = ''VS'',
        structure_id_path = [997, 73], rgb_triplet = [170, 170, 170]\<rparr>]"

section \<open>The label index and the presence filter\<close>

lemma set_ravel: "x \<in> set (ravel v) \<longleftrightarrow> occurs_in v x"
  by (auto simp: ravel_def occurs_in_def)

lemma set_np_unique: "set (np_unique v) = set (ravel v)"
  by (simp add: np_unique_def)

lemma astype_int32_id:
  "- 2147483648 \<le> x \<Longrightarrow> x \<le> 2147483647 \<Longrightarrow> astype_int32 x = x"
  unfolding astype_int32_def by (simp add: sint_sbintrunc' signed_take_bit_int_eq_self)

lemma set_labels_of: "set (labels_of v) = astype_int32 ` set (ravel v)"
  by (simp add: labels_of_def set_np_unique)

lemma labels_of_in_range: "in_int32_range v \<Longrightarrow> labels_of v = np_unique v"
  unfolding labels_of_def in_int32_range_def
  by (rule map_idI) (simp add: set_np_unique list_all_iff astype_int32_id)

lemma tagging_loop_map:
  "tagging_loop ls (map (\<lambda>n. (tree_identifier n, n)) ns) =
     map (\<lambda>n. n\<lparr>data := Some (Region (tree_identifier n \<in> set ls))\<rparr>) ns"
  by (induction ns) auto

lemma in_labels_of_in_range:
  "in_int32_range v \<Longrightarrow> (x \<in> set (labels_of v)) = occurs_in v x"
  by (simp add: labels_of_in_range set_np_unique set_ravel)

text \<open>
  C2: the label index is not restricted to non-zero values. It holds the values that
  occur in the volume, each converted to a signed 32-bit number; when every voxel value
  lies in that range it is exactly the set of values that occur, and zero is a member
  whenever some voxel is zero.
\<close>

theorem label_index_is_int32_image:
  "set (labels_of v) = astype_int32 ` set (ravel v)
   \<and> (in_int32_range v \<longrightarrow> (\<forall>x. (x \<in> set (labels_of v)) = occurs_in v x))
   \<and> (occurs_in v 0 \<longrightarrow> 0 \<in> set (labels_of v))"
proof -
  have a: "set (labels_of v) = astype_int32 ` set (ravel v)" by (rule set_labels_of)
  have b: "in_int32_range v \<longrightarrow> (\<forall>x. (x \<in> set (labels_of v)) = occurs_in v x)"
    by (simp add: labels_of_in_range set_np_unique set_ravel)
  have "astype_int32 0 = 0" by (simp add: astype_int32_def)
  then have c: "occurs_in v 0 \<longrightarrow> 0 \<in> set (labels_of v)"
    unfolding a set_ravel[symmetric] by (metis imageI)
  from a b c show ?thesis by blast
qed

theorem label_index_is_int32_image_witness:
  "in_int32_range [[[0, 5], [5, 9]]] \<and> occurs_in [[[0, 5], [5, 9]]] 0
   \<and> 0 \<in> set (labels_of [[[0, 5], [5, 9]]])
   \<and> (\<forall>x. (x \<in> set (labels_of [[[0, 5], [5, 9]]])) = occurs_in [[[0, 5], [5, 9]]] x)"
proof -
  have h: "in_int32_range [[[0, 5], [5, 9]]]" "occurs_in [[[0, 5], [5, 9]]] 0"
    by (simp_all add: in_int32_range_def occurs_in_def ravel_def)
  with label_index_is_int32_image[of "[[[0, 5], [5, 9]]]"] show ?thesis by blast
qed

theorem label_index_contains_zero_counterexample:
  "labels_of [[[0, 5]]] = [0, 5] \<and> 0 \<in> set (labels_of [[[0, 5]]])"
  by (simp add: labels_of_def np_unique_def ravel_def astype_int32_def)

text \<open>
  C3: after the tagging loop a node carries \<open>is_label = True\<close> exactly when its id is
  the 32-bit conversion of some voxel value; when every voxel value lies in the signed
  32-bit range this is exactly when its id occurs as a voxel value, whatever its
  descendants are.
\<close>

theorem is_label_iff_int32_label_present:
  "tagging_loop (labels_of v) (items t) =
     map (\<lambda>n. n\<lparr>data := Some (Region (tree_identifier n \<in> astype_int32 ` set (ravel v)))\<rparr>)
       (nodes t)
   \<and> (in_int32_range v \<longrightarrow>
        tagging_loop (labels_of v) (items t) =
          map (\<lambda>n. n\<lparr>data := Some (Region (occurs_in v (tree_identifier n)))\<rparr>) (nodes t))"
proof -
  have a: "tagging_loop (labels_of v) (items t) =
     map (\<lambda>n. n\<lparr>data := Some (Region (tree_identifier n \<in> set (labels_of v)))\<rparr>) (nodes t)"
    by (simp add: items_def tagging_loop_map)
  have b: "in_int32_range v \<longrightarrow>
        tagging_loop (labels_of v) (items t) =
          map (\<lambda>n. n\<lparr>data := Some (Region (occurs_in v (tree_identifier n)))\<rparr>) (nodes t)"
    unfolding a by (simp add: in_labels_of_in_range)
  from a b show ?thesis by (simp add: set_labels_of)
qed

theorem is_label_iff_int32_label_present_witness:
  "in_int32_range [[[0, 2], [2, 7]]]
   \<and> tagging_loop (labels_of [[[0, 2], [2, 7]]])
        (items \<lparr>nodes = [\<lparr>tree_identifier = 1, tag = ''r'', predecessor = None, data = None\<rparr>,
                         \<lparr>tree_identifier = 2, tag = ''a'', predecessor = Some 1, data = None\<rparr>]\<rparr>)
      = [\<lparr>tree_identifier = 1, tag = ''r'', predecessor = None, data = Some (Region False)\<rparr>,
         \<lparr>tree_identifier = 2, tag = ''a'', predecessor = Some 1, data = Some (Region True)\<rparr>]"
proof -
  have h: "in_int32_range [[[0, 2], [2, 7]]]"
    by (simp add: in_int32_range_def ravel_def)
  from is_label_iff_int32_label_present[of "[[[0, 2], [2, 7]]]"
      "\<lparr>nodes = [\<lparr>tree_identifier = 1, tag = ''r'', predecessor = None, data = None\<rparr>,
                 \<lparr>tree_identifier = 2, tag = ''a'', predecessor = Some 1, data = None\<rparr>]\<rparr>",
      THEN conjunct2, rule_format, OF h]
  show ?thesis using h by (simp add: occurs_in_def)
qed

theorem is_label_wraps_counterexample:
  "tagging_loop (labels_of [[[4294967301]]])
     (items \<lparr>nodes = [\<lparr>tree_identifier = 5, tag = ''a'', predecessor = None, data = None\<rparr>]\<rparr>)
   = [\<lparr>tree_identifier = 5, tag = ''a'', predecessor = None, data = Some (Region True)\<rparr>]
   \<and> \<not> occurs_in [[[4294967301]]] 5"
  by (simp add: labels_of_def np_unique_def ravel_def astype_int32_def items_def occurs_in_def)

text \<open>
  C4: \<open>filter_structures_not_present_in_annotation\<close> returns exactly the records of the
  input whose id occurs as a voxel value in the annotation volume, unchanged and in
  their original order; every other record is removed.
\<close>

theorem filter_structures_keeps_exactly_present:
  "filter_structures_not_present_in_annotation structures annotation =
     filter (\<lambda>s. occurs_in annotation (structure_id s)) structures"
  by (simp add: filter_structures_not_present_in_annotation_def set_np_unique set_ravel)

theorem filter_structures_keeps_exactly_present_witness:
  "filter_structures_not_present_in_annotation
     [\<lparr>structure_id = 7, name = ''a'', acronym = ''a'', structure_id_path = [1, 7],
        rgb_triplet = [0, 0, 0]\<rparr>,
      \<lparr>structure_id = 8, name = ''b'', acronym = ''b'', structure_id_path = [1, 8],
        rgb_triplet = [0, 0, 0]\<rparr>,
      \<lparr>structure_id = 1, name = ''r'', acronym = ''r'', structure_id_path = [1],
        rgb_triplet = [0, 0, 0]\<rparr>]
     [[[0, 7], [7, 1]]] =
   [\<lparr>structure_id = 7, name = ''a'', acronym = ''a'', structure_id_path = [1, 7],
      rgb_triplet = [0, 0, 0]\<rparr>,
    \<lparr>structure_id = 1, name = ''r'', acronym = ''r'', structure_id_path = [1],
      rgb_triplet = [0, 0, 0]\<rparr>]"
  using filter_structures_keeps_exactly_present
    [of "[\<lparr>structure_id = 7, name = ''a'', acronym = ''a'', structure_id_path = [1, 7],
            rgb_triplet = [0, 0, 0]\<rparr>,
          \<lparr>structure_id = 8, name = ''b'', acronym = ''b'', structure_id_path = [1, 8],
            rgb_triplet = [0, 0, 0]\<rparr>,
          \<lparr>structure_id = 1, name = ''r'', acronym = ''r'', structure_id_path = [1],
            rgb_triplet = [0, 0, 0]\<rparr>]"
        "[[[0, 7], [7, 1]]]"]
  by (simp add: occurs_in_def)

text \<open>
  C9: the presence filter is idempotent, and its output is a subsequence of its input:
  it is obtained by deleting records only.
\<close>

theorem filter_structures_idempotent_subseq:
  "filter_structures_not_present_in_annotation
     (filter_structures_not_present_in_annotation structures annotation) annotation =
   filter_structures_not_present_in_annotation structures annotation
   \<and> subseq (filter_structures_not_present_in_annotation structures annotation) structures"
  by (simp add: filter_structures_not_present_in_annotation_def)

theorem filter_structures_idempotent_subseq_witness:
  "filter_structures_not_present_in_annotation
     (filter_structures_not_present_in_annotation
        [\<lparr>structure_id = 8, name = ''b'', acronym = ''b'', structure_id_path = [1, 8],
           rgb_triplet = [0, 0, 0]\<rparr>,
         \<lparr>structure_id = 1, name = ''r'', acronym = ''r'', structure_id_path = [1],
           rgb_triplet = [0, 0, 0]\<rparr>]
        [[[0, 1]]])
     [[[0, 1]]] =
   [\<lparr>structure_id = 1, name = ''r'', acronym = ''r'', structure_id_path = [1],
      rgb_triplet = [0, 0, 0]\<rparr>]"
  using filter_structures_idempotent_subseq
    [of "[\<lparr>structure_id = 8, name = ''b'', acronym = ''b'', structure_id_path = [1, 8],
            rgb_triplet = [0, 0, 0]\<rparr>,
          \<lparr>structure_id = 1, name = ''r'', acronym = ''r'', structure_id_path = [1],
            rgb_triplet = [0, 0, 0]\<rparr>]"
        "[[[0, 1]]]"]
  by (simp add: filter_structures_not_present_in_annotation_def np_unique_def ravel_def)

section \<open>Mesh creation and the mesh catalog\<close>

lemma meshes_dict_loop_lookup:
  "meshes_dict_loop dir fs ss m k =
     (if k \<in> structure_id ` set ss \<and> usable fs (obj_path dir k) then Some (obj_path dir k) else m k)"
  by (induction ss arbitrary: m) (auto simp: usable_def Let_def split: option.splits)

lemma meshes_dict_loop_catalog:
  "catalog_of_usable dir fs ss (meshes_dict_loop dir fs ss Map.empty)"
  unfolding catalog_of_usable_def
  by (auto simp: meshes_dict_loop_lookup dom_def split: if_splits)

lemma construct_meshes_Inr:
  assumes "construct_meshes r f gst crm d v ss fs = (Inr m, fs')"
  shows "\<exists>t0. fs (path_div d ''meshes'') = None \<and> gst ss = Inr t0
     \<and> mesh_creation r f crm (path_div d ''meshes'') v (tag_tree v t0) fs = (None, fs')
     \<and> m = meshes_dict_loop (path_div d ''meshes'') fs' ss Map.empty"
  using assms unfolding construct_meshes_def mkdir_exist_ok_def Let_def
  by (auto split: option.splits sum.splits prod.splits)

lemma construct_meshes_raise:
  assumes "fs (path_div d ''meshes'') = None" "gst ss = Inr t0"
    "mesh_creation r f crm (path_div d ''meshes'') v (tag_tree v t0) fs = (Some e, fs')"
  shows "construct_meshes r f gst crm d v ss fs = (Inl e, fs')"
  using assms unfolding construct_meshes_def mkdir_exist_ok_def Let_def
  by (auto split: option.splits sum.splits prod.splits)

lemma mesh_loop_calls_all:
  "mesh_loop crm args ns fs = (None, fs') \<Longrightarrow> mesh_loop_calls crm args ns fs = ns"
  by (induction ns arbitrary: fs) (auto split: prod.splits option.splits)

lemma mesh_loop_calls_stop:
  "mesh_loop crm args ns fs = (Some e, fs') \<Longrightarrow>
     \<exists>pre n post. ns = pre @ n # post \<and> mesh_loop_calls crm args ns fs = pre @ [n]"
proof (induction ns arbitrary: fs)
  case Nil
  then show ?case by simp
next
  case (Cons a ns)
  show ?case
  proof (cases "crm (args a) fs")
    case (Pair r fs1)
    show ?thesis
    proof (cases r)
      case None
      with Pair Cons.prems have "mesh_loop crm args ns fs1 = (Some e, fs')" by simp
      from Cons.IH[OF this] obtain pre n post where
        "ns = pre @ n # post" "mesh_loop_calls crm args ns fs1 = pre @ [n]" by blast
      then have "a # ns = (a # pre) @ n # post \<and> mesh_loop_calls crm args (a # ns) fs = (a # pre) @ [n]"
        using Pair None by simp
      then show ?thesis by blast
    next
      case (Some e')
      with Pair have "a # ns = [] @ a # ns \<and> mesh_loop_calls crm args (a # ns) fs = [] @ [a]"
        by simp
      then show ?thesis by blast
    qed
  qed
qed

lemma create_region_mesh_keeps:
  "create_region_mesh mesh_of a fs = (r, fs') \<Longrightarrow> fs p = Some c \<Longrightarrow> r = None \<and> fs' p = Some c"
  unfolding create_region_mesh_def Let_def
  by (auto split: option.splits if_splits)

lemma mesh_loop_keeps:
  "mesh_loop (create_region_mesh mesh_of) args ns fs = (r, fs') \<Longrightarrow> fs p = Some c
     \<Longrightarrow> r = None \<and> fs' p = Some c"
proof (induction ns arbitrary: fs)
  case Nil
  then show ?case by simp
next
  case (Cons a ns)
  obtain r1 fs1 where s: "create_region_mesh mesh_of (args a) fs = (r1, fs1)" by force
  from create_region_mesh_keeps[OF s Cons.prems(2)] have k: "r1 = None" "fs1 p = Some c" by simp_all
  with s Cons.prems(1) have "mesh_loop (create_region_mesh mesh_of) args ns fs1 = (r, fs')" by simp
  from Cons.IH[OF this k(2)] show ?case .
qed

lemma construct_meshes_keeps:
  assumes "construct_meshes r f gst (create_region_mesh mesh_of) d v ss fs = (res, fs')" "fs p = Some c"
  shows "fs' p = Some c"
  using assms unfolding construct_meshes_def mkdir_exist_ok_def Let_def mesh_creation_def
  by (auto split: option.splits sum.splits prod.splits dest: mesh_loop_keeps)


lemmas eval_defs = retrieve_or_construct_meshes_def retrieve_or_construct_meshes_demba_def
  construct_meshes_def mkdir_exist_ok_def mesh_creation_def mesh_creation_calls_def
  region_mesh_args_def tag_tree_def items_def labels_of_def np_unique_def ravel_def
  astype_int32_def path_div_def obj_path_def str_int_def str_nat.simps digit_char_def
  usable_def Let_def example_tree_def example_structures_def example_maker_def
  failing_maker_def example_mesh_of_def create_region_mesh_def

text \<open>
  C1: when \<open>retrieve_or_construct_meshes\<close> returns a catalog, the id of a listed
  structure is a key exactly when its mesh file exists with at least 512 bytes, every
  key is mapped to the path of that file, and there are no other keys.
\<close>

theorem meshes_dict_exactly_usable:
  "(retrieve_or_construct_meshes gst crm download_path volume structures fs = (Inr meshes_dict, fs')
      \<longrightarrow> catalog_of_usable (path_div download_path ''meshes'') fs' structures meshes_dict)
   \<and> (retrieve_or_construct_meshes_demba gst crm structures volume download_path fs = (Inr meshes_dict, fs')
      \<longrightarrow> catalog_of_usable (path_div download_path ''meshes'') fs' structures meshes_dict)"
  unfolding retrieve_or_construct_meshes_def retrieve_or_construct_meshes_demba_def
  by (auto dest!: construct_meshes_Inr simp: meshes_dict_loop_catalog)

theorem meshes_dict_exactly_usable_witness:
  "fst (retrieve_or_construct_meshes example_tree example_maker [''d''] [[[1, 2]]]
          example_structures Map.empty) = Inr [1 \<mapsto> [''d'', ''meshes'', ''1.obj'']]
   \<and> fst (retrieve_or_construct_meshes_demba example_tree example_maker
          example_structures [[[1, 2]]] [''d''] Map.empty) = Inr [1 \<mapsto> [''d'', ''meshes'', ''1.obj'']]
   \<and> catalog_of_usable [''d'', ''meshes'']
        (snd (retrieve_or_construct_meshes example_tree example_maker [''d''] [[[1, 2]]]
                example_structures Map.empty))
        example_structures [1 \<mapsto> [''d'', ''meshes'', ''1.obj'']]"
proof -
  let ?X = "retrieve_or_construct_meshes example_tree example_maker [''d''] [[[1, 2]]]
              example_structures Map.empty"
  have a: "fst ?X = Inr [1 \<mapsto> [''d'', ''meshes'', ''1.obj'']]"
    by (simp add: eval_defs)
  have b: "fst (retrieve_or_construct_meshes_demba example_tree example_maker
          example_structures [[[1, 2]]] [''d''] Map.empty) = Inr [1 \<mapsto> [''d'', ''meshes'', ''1.obj'']]"
    by (simp add: eval_defs)
  from a have e: "?X = (Inr [1 \<mapsto> [''d'', ''meshes'', ''1.obj'']], snd ?X)"
    by (metis prod.collapse)
  from meshes_dict_exactly_usable[of example_tree example_maker "[''d'']" "[[[1, 2]]]"
        example_structures Map.empty "[1 \<mapsto> [''d'', ''meshes'', ''1.obj'']]" "snd ?X"] e
  have "catalog_of_usable [''d'', ''meshes''] (snd ?X) example_structures [1 \<mapsto> [''d'', ''meshes'', ''1.obj'']]"
    by (simp add: path_div_def)
  with a b show ?thesis by simp
qed

text \<open>
  C6: the loop over the nodes has no exception handler. When \<open>create_region_mesh\<close>
  returns at every node, every node is processed, and the catalog leaves out the nodes
  without a usable file; when it raises at a node, no later node is processed and the
  function raises the same exception instead of returning a catalog.
\<close>

theorem mesh_creation_stops_at_first_exception:
  "(mesh_creation r f crm dir v t fs = (None, fs')
      \<longrightarrow> mesh_creation_calls r f crm dir v t fs = nodes t)
   \<and> (mesh_creation r f crm dir v t fs = (Some e, fs')
      \<longrightarrow> (\<exists>pre n post. nodes t = pre @ n # post
             \<and> mesh_creation_calls r f crm dir v t fs = pre @ [n]))
   \<and> (retrieve_or_construct_meshes gst crm d v ss fs = (Inr m, fs')
      \<longrightarrow> (\<exists>t0. gst ss = Inr t0
             \<and> mesh_creation 997 0 crm (path_div d ''meshes'') v (tag_tree v t0) fs = (None, fs'))
          \<and> catalog_of_usable (path_div d ''meshes'') fs' ss m)
   \<and> (fs (path_div d ''meshes'') = None \<and> gst ss = Inr t0
        \<and> mesh_creation 997 0 crm (path_div d ''meshes'') v (tag_tree v t0) fs = (Some e, fs')
      \<longrightarrow> retrieve_or_construct_meshes gst crm d v ss fs = (Inl e, fs'))
   \<and> (retrieve_or_construct_meshes_demba gst crm ss v d fs = (Inr m, fs')
      \<longrightarrow> (\<exists>t0. gst ss = Inr t0
             \<and> mesh_creation 997 (2 / 10) crm (path_div d ''meshes'') v (tag_tree v t0) fs
                 = (None, fs'))
          \<and> catalog_of_usable (path_div d ''meshes'') fs' ss m)
   \<and> (fs (path_div d ''meshes'') = None \<and> gst ss = Inr t0
        \<and> mesh_creation 997 (2 / 10) crm (path_div d ''meshes'') v (tag_tree v t0) fs
            = (Some e, fs')
      \<longrightarrow> retrieve_or_construct_meshes_demba gst crm ss v d fs = (Inl e, fs'))"
proof -
  have a: "mesh_creation r f crm dir v t fs = (None, fs')
      \<longrightarrow> mesh_creation_calls r f crm dir v t fs = nodes t"
    unfolding mesh_creation_def mesh_creation_calls_def
    by (rule impI) (erule mesh_loop_calls_all)
  have b: "mesh_creation r f crm dir v t fs = (Some e, fs')
      \<longrightarrow> (\<exists>pre n post. nodes t = pre @ n # post
             \<and> mesh_creation_calls r f crm dir v t fs = pre @ [n])"
    unfolding mesh_creation_def mesh_creation_calls_def
    by (rule impI) (erule mesh_loop_calls_stop)
  have c: "construct_meshes r' f' gst crm d v ss fs = (Inr m, fs')
      \<longrightarrow> (\<exists>t0. gst ss = Inr t0
             \<and> mesh_creation r' f' crm (path_div d ''meshes'') v (tag_tree v t0) fs = (None, fs'))
          \<and> catalog_of_usable (path_div d ''meshes'') fs' ss m" for r' f'
    by (auto dest!: construct_meshes_Inr simp: meshes_dict_loop_catalog)
  have d: "fs (path_div d ''meshes'') = None \<and> gst ss = Inr t0
        \<and> mesh_creation r' f' crm (path_div d ''meshes'') v (tag_tree v t0) fs = (Some e, fs')
      \<longrightarrow> construct_meshes r' f' gst crm d v ss fs = (Inl e, fs')" for r' f'
    by (simp add: construct_meshes_raise)
  show ?thesis
    unfolding retrieve_or_construct_meshes_def retrieve_or_construct_meshes_demba_def
    using a b c[of 997 0] d[of 997 0] c[of 997 "2 / 10"] d[of 997 "2 / 10"] by blast
qed

theorem mesh_creation_stops_at_first_exception_witness:
  "mesh_creation 997 0 failing_maker [''d'', ''meshes''] [[[1, 2]]]
     (tag_tree [[[1, 2]]]
        \<lparr>nodes = [\<lparr>tree_identifier = 1, tag = ''r'', predecessor = None, data = None\<rparr>,
                  \<lparr>tree_identifier = 2, tag = ''a'', predecessor = None, data = None\<rparr>]\<rparr>)
     Map.empty = (Some OtherError, Map.empty)
   \<and> example_tree example_structures =
       Inr \<lparr>nodes = [\<lparr>tree_identifier = 1, tag = ''r'', predecessor = None, data = None\<rparr>,
                     \<lparr>tree_identifier = 2, tag = ''a'', predecessor = None, data = None\<rparr>]\<rparr>
   \<and> retrieve_or_construct_meshes example_tree failing_maker [''d''] [[[1, 2]]]
         example_structures Map.empty = (Inl OtherError, Map.empty)
   \<and> fst (mesh_creation 997 0 example_maker [''d'', ''meshes''] [[[1, 2]]]
         (tag_tree [[[1, 2]]]
            \<lparr>nodes = [\<lparr>tree_identifier = 1, tag = ''r'', predecessor = None, data = None\<rparr>,
                      \<lparr>tree_identifier = 2, tag = ''a'', predecessor = None, data = None\<rparr>]\<rparr>)
         Map.empty) = None
   \<and> mesh_creation_calls 997 0 example_maker [''d'', ''meshes''] [[[1, 2]]]
         (tag_tree [[[1, 2]]]
            \<lparr>nodes = [\<lparr>tree_identifier = 1, tag = ''r'', predecessor = None, data = None\<rparr>,
                      \<lparr>tree_identifier = 2, tag = ''a'', predecessor = None, data = None\<rparr>]\<rparr>)
         Map.empty
       = [\<lparr>tree_identifier = 1, tag = ''r'', predecessor = None, data = Some (Region True)\<rparr>,
          \<lparr>tree_identifier = 2, tag = ''a'', predecessor = None, data = Some (Region True)\<rparr>]"
proof -
  let ?t0 = "\<lparr>nodes = [\<lparr>tree_identifier = 1, tag = ''r'', predecessor = None, data = None\<rparr>,
                  \<lparr>tree_identifier = 2, tag = ''a'', predecessor = None, data = None\<rparr>]\<rparr>"
  let ?ok = "mesh_creation 997 0 example_maker [''d'', ''meshes''] [[[1, 2]]]
               (tag_tree [[[1, 2]]] ?t0) Map.empty"
  have h1: "mesh_creation 997 0 failing_maker [''d'', ''meshes''] [[[1, 2]]]
     (tag_tree [[[1, 2]]] ?t0) Map.empty = (Some OtherError, Map.empty)"
    by (simp add: eval_defs)
  have h2: "example_tree example_structures = Inr ?t0"
    by (simp add: example_tree_def example_structures_def)
  have h3: "(Map.empty :: filesystem) (path_div [''d''] ''meshes'') = None"
    by simp
  have h4: "path_div [''d''] ''meshes'' = [''d'', ''meshes'']"
    by (simp add: path_div_def)
  have h5: "fst ?ok = None"
    by (simp add: eval_defs)
  then have h6: "?ok = (None, snd ?ok)"
    by (metis prod.collapse)
  have h7: "nodes (tag_tree [[[1, 2]]] ?t0) =
      [\<lparr>tree_identifier = 1, tag = ''r'', predecessor = None, data = Some (Region True)\<rparr>,
       \<lparr>tree_identifier = 2, tag = ''a'', predecessor = None, data = Some (Region True)\<rparr>]"
    by (simp add: eval_defs)
  from mesh_creation_stops_at_first_exception
    [of 997 0 example_maker "[''d'', ''meshes'']" "[[[1, 2]]]" "tag_tree [[[1, 2]]] ?t0"
        Map.empty "snd ?ok"] h6 h7
  have calls: "mesh_creation_calls 997 0 example_maker [''d'', ''meshes''] [[[1, 2]]]
         (tag_tree [[[1, 2]]] ?t0) Map.empty
       = [\<lparr>tree_identifier = 1, tag = ''r'', predecessor = None, data = Some (Region True)\<rparr>,
          \<lparr>tree_identifier = 2, tag = ''a'', predecessor = None, data = Some (Region True)\<rparr>]"
    by simp
  from mesh_creation_stops_at_first_exception
    [of 997 0 failing_maker "[''d'', ''meshes'']" "[[[1, 2]]]" "tag_tree [[[1, 2]]] ?t0"
        Map.empty Map.empty OtherError example_tree "[''d'']" example_structures _ ?t0]
    h1 h2 h3 h4 h5 calls
  show ?thesis by simp
qed

theorem mesh_creation_aborts_counterexample:
  "mesh_creation_calls 997 0 failing_maker [''d'', ''meshes''] [[[1, 2]]]
     (tag_tree [[[1, 2]]]
        \<lparr>nodes = [\<lparr>tree_identifier = 1, tag = ''r'', predecessor = None, data = None\<rparr>,
                  \<lparr>tree_identifier = 2, tag = ''a'', predecessor = None, data = None\<rparr>]\<rparr>)
     Map.empty
   = [\<lparr>tree_identifier = 1, tag = ''r'', predecessor = None, data = Some (Region True)\<rparr>]
   \<and> fst (retrieve_or_construct_meshes example_tree failing_maker [''d''] [[[1, 2]]]
            example_structures Map.empty) = Inl OtherError
   \<and> fst (retrieve_or_construct_meshes_demba example_tree failing_maker example_structures
            [[[1, 2]]] [''d''] Map.empty) = Inl OtherError"
  by (simp add: eval_defs)

text \<open>
  C7: a node whose mesh file already exists is skipped: the mesh writer returns with the
  file system unchanged, whatever the mesh computation would give; and every file that
  exists before a run has the same contents after it.
\<close>

theorem existing_mesh_file_is_skipped:
  "(fs (obj_path (meshes_dir_path a) (tree_identifier (node a))) = Some c
      \<longrightarrow> create_region_mesh mesh_of a fs = (None, fs))
   \<and> (fs p = Some c
        \<and> retrieve_or_construct_meshes gst (create_region_mesh mesh_of) d v ss fs = (res, fs')
      \<longrightarrow> fs' p = Some c)
   \<and> (fs p = Some c
        \<and> retrieve_or_construct_meshes_demba gst (create_region_mesh mesh_of) ss v d fs = (res, fs')
      \<longrightarrow> fs' p = Some c)"
proof -
  have a: "fs (obj_path (meshes_dir_path a) (tree_identifier (node a))) = Some c
      \<longrightarrow> create_region_mesh mesh_of a fs = (None, fs)"
    by (simp add: create_region_mesh_def)
  have b: "fs p = Some c
        \<and> construct_meshes r f gst (create_region_mesh mesh_of) d v ss fs = (res, fs')
      \<longrightarrow> fs' p = Some c" for r f
    using construct_meshes_keeps by blast
  show ?thesis
    unfolding retrieve_or_construct_meshes_def retrieve_or_construct_meshes_demba_def
    using a b[of 997 0] b[of 997 "2 / 10"] by blast
qed

theorem existing_mesh_file_is_skipped_witness:
  "create_region_mesh example_mesh_of
     (region_mesh_args 997 0 [''d'', ''meshes''] [[[1, 2]]]
        \<lparr>nodes = []\<rparr>
        \<lparr>tree_identifier = 1, tag = ''r'', predecessor = None, data = Some (Region True)\<rparr>)
     [[''d'', ''meshes'', ''1.obj''] \<mapsto> ''old'']
   = (None, [[''d'', ''meshes'', ''1.obj''] \<mapsto> ''old''])
   \<and> snd (retrieve_or_construct_meshes example_tree (create_region_mesh example_mesh_of)
            [''d''] [[[1, 2]]] example_structures [[''d'', ''meshes'', ''1.obj''] \<mapsto> ''old''])
         [''d'', ''meshes'', ''1.obj''] = Some ''old''
   \<and> snd (retrieve_or_construct_meshes example_tree (create_region_mesh example_mesh_of)
            [''d''] [[[1, 2]]] example_structures [[''d'', ''meshes'', ''1.obj''] \<mapsto> ''old''])
         [''d'', ''meshes'', ''2.obj''] = Some (replicate 600 CHR ''v'')"
proof -
  let ?fs = "[[''d'', ''meshes'', ''1.obj''] \<mapsto> ''old''] :: filesystem"
  let ?a = "region_mesh_args 997 0 [''d'', ''meshes''] [[[1, 2]]] \<lparr>nodes = []\<rparr>
        \<lparr>tree_identifier = 1, tag = ''r'', predecessor = None, data = Some (Region True)\<rparr>"
  let ?X = "retrieve_or_construct_meshes example_tree (create_region_mesh example_mesh_of)
            [''d''] [[[1, 2]]] example_structures ?fs"
  have h1: "?fs (obj_path (meshes_dir_path ?a) (tree_identifier (node ?a))) = Some ''old''"
    by (simp add: region_mesh_args_def obj_path_def path_div_def str_int_def str_nat.simps
        digit_char_def)
  have h2: "?fs [''d'', ''meshes'', ''1.obj''] = Some ''old''" by simp
  have h3: "?X = (fst ?X, snd ?X)" by simp
  have h4: "snd ?X [''d'', ''meshes'', ''2.obj''] = Some (replicate 600 CHR ''v'')"
    by (simp add: eval_defs)
  from existing_mesh_file_is_skipped
    [of ?fs ?a "''old''" example_mesh_of "[''d'', ''meshes'', ''1.obj'']" example_tree
        "[''d'']" "[[[1, 2]]]" example_structures "fst ?X" "snd ?X"]
    h1 h2 h3 h4
  show ?thesis by blast
qed

section \<open>Colours and the flattened hierarchy\<close>

lemma hex_digit_not_special:
  assumes "is_hex_digit c"
  shows "\<not> is_space c" "c \<noteq> CHR ''+''" "c \<noteq> CHR ''-''" "c \<noteq> CHR ''_''"
    "c \<noteq> CHR ''x''" "c \<noteq> CHR ''X''"
  using assms by (auto simp: is_hex_digit_def hex_digit_value_def is_space_def)

lemma hex_digit_value_digit_of: "is_hex_digit c \<Longrightarrow> hex_digit_value c = Some (digit_of c)"
  by (auto simp: is_hex_digit_def digit_of_def split: option.splits)

lemma digit_of_le: "digit_of c \<le> 15"
  by (auto simp: digit_of_def hex_digit_value_def Let_def split: option.splits)

lemma py_int16_pair:
  assumes a: "is_hex_digit a" and b: "is_hex_digit b"
  shows "py_int16 [a, b] = Inr (int (16 * digit_of a + digit_of b))"
proof -
  note na = hex_digit_not_special[OF a] and nb = hex_digit_not_special[OF b]
  have s1: "dropWhile is_space [a, b] = [a, b]" using na by simp
  have s2: "split_sign [a, b] = (1, [a, b])" using na by (simp add: split_sign_def)
  have s3: "strip_prefix16 [a, b] = [a, b]" using nb by (simp add: strip_prefix16_def)
  have bc: "is_body_char a" "is_body_char b" using a b by (simp_all add: is_body_char_def)
  have s4: "takeWhile is_body_char [a, b] = [a, b]" "dropWhile is_body_char [a, b] = []"
    using bc by simp_all
  have s5: "digit_values [a, b] = [digit_of a, digit_of b]"
    using a b by (simp add: hex_digit_value_digit_of)
  show ?thesis
    unfolding py_int16_def s1 s2 prod.case s3 Let_def s4 s5
    using na nb by (simp add: starts_with_underscore_def hex_value_def)
qed

lemma hex_to_rgb_six:
  assumes "hex_colour s"
  shows "hex_to_rgb s = Inr [pair_value (dropWhile (\<lambda>c. c = CHR ''#'') s) 0,
           pair_value (dropWhile (\<lambda>c. c = CHR ''#'') s) 1,
           pair_value (dropWhile (\<lambda>c. c = CHR ''#'') s) 2]"
proof -
  define h where "h = dropWhile (\<lambda>c. c = CHR ''#'') s"
  from assms have len: "length h = 6" and dig: "list_all is_hex_digit h"
    by (simp_all add: hex_colour_def h_def Let_def)
  from len obtain a b c d e f where h: "h = [a, b, c, d, e, f]"
    by (auto simp: length_Suc_conv eval_nat_numeral)
  from dig h have d: "is_hex_digit a" "is_hex_digit b" "is_hex_digit c" "is_hex_digit d"
    "is_hex_digit e" "is_hex_digit f" by simp_all
  show ?thesis
    unfolding hex_to_rgb_def h_def[symmetric] Let_def
    by (simp add: h py_int16_pair d pair_value_def)
qed

lemma pair_value_byte: "0 \<le> pair_value h k \<and> pair_value h k \<le> 255"
proof -
  have "digit_of (h ! (2 * k)) \<le> 15" "digit_of (h ! (2 * k + 1)) \<le> 15"
    by (rule digit_of_le)+
  then show ?thesis unfolding pair_value_def by linarith
qed

lemma extend_children_decomp:
  "extend_children cs cp entries = Inr rs \<Longrightarrow>
     \<exists>rss. rs = entries @ concat rss
          \<and> list_all2 (\<lambda>c crs. flatten_structure_tree c (Some cp) = Inr crs) cs rss"
proof (induction cs arbitrary: entries)
  case Nil
  then show ?case by simp
next
  case (Cons c cs)
  from Cons.prems obtain crs where c: "flatten_structure_tree c (Some cp) = Inr crs"
    and r: "extend_children cs cp (entries @ crs) = Inr rs"
    by (auto split: sum.splits)
  from Cons.IH[OF r] obtain rss where "rs = (entries @ crs) @ concat rss"
    "list_all2 (\<lambda>c crs. flatten_structure_tree c (Some cp) = Inr crs) cs rss" by blast
  with c have "rs = entries @ concat (crs # rss)
     \<and> list_all2 (\<lambda>c crs. flatten_structure_tree c (Some cp) = Inr crs) (c # cs) (crs # rss)"
    by simp
  then show ?case by blast
qed

lemma flatten_decomp:
  assumes "flatten_structure_tree n p = Inr rs"
  shows "\<exists>r rss. rs = r # concat rss \<and> record_of r n
      \<and> structure_id_path r = start_path p @ [node_id n]
      \<and> list_all2 (\<lambda>c crs. flatten_structure_tree c (Some (structure_id_path r)) = Inr crs)
           (child_nodes n) rss"
proof (cases n)
  case (JNode i nm a c ch)
  from assms JNode obtain rgb where rgb: "hex_to_rgb c = Inr rgb"
    by (auto simp: Let_def split: sum.splits)
  define r where "r = \<lparr>structure_id = i, name = nm, acronym = a,
     structure_id_path = start_path p @ [i], rgb_triplet = rgb\<rparr>"
  have ro: "record_of r n" "structure_id_path r = start_path p @ [node_id n]"
    by (simp_all add: record_of_def r_def JNode rgb)
  show ?thesis
  proof (cases ch)
    case None
    with assms JNode rgb have "rs = r # concat []"
      by (simp add: r_def start_path_def Let_def)
    moreover have "list_all2 (\<lambda>c crs. flatten_structure_tree c (Some (structure_id_path r)) = Inr crs)
           (child_nodes n) []" by (simp add: child_nodes_def JNode None)
    ultimately show ?thesis using ro by blast
  next
    case (Some cs)
    with assms JNode rgb have "extend_children cs (start_path p @ [i]) [r] = Inr rs"
      by (simp add: r_def start_path_def Let_def)
    from extend_children_decomp[OF this] obtain rss where
      "rs = [r] @ concat rss"
      "list_all2 (\<lambda>c crs. flatten_structure_tree c (Some (start_path p @ [i])) = Inr crs) cs rss"
      by blast
    then have "rs = r # concat rss \<and>
      list_all2 (\<lambda>c crs. flatten_structure_tree c (Some (structure_id_path r)) = Inr crs)
           (child_nodes n) rss"
      by (simp add: child_nodes_def JNode Some r_def)
    then show ?thesis using ro by blast
  qed
qed

lemma child_nodes_induct [case_names node]:
  assumes "\<And>n. (\<And>c. c \<in> set (child_nodes n) \<Longrightarrow> P c) \<Longrightarrow> P n"
  shows "P n"
proof (induction n)
  case (JNode i nm a c ch)
  show ?case
  proof (rule assms)
    fix x assume "x \<in> set (child_nodes (JNode i nm a c ch))"
    then obtain cs where "ch = Some cs" "x \<in> set cs"
      by (auto simp: child_nodes_def split: option.splits)
    then show "P x" using JNode by (auto)
  qed
qed

lemma preorder_child_nodes: "preorder n = n # preorder_list (child_nodes n)"
  by (cases n) (auto simp: child_nodes_def split: option.splits)

lemma preorder_list_concat: "preorder_list cs = concat (map preorder cs)"
  by (induction cs) auto

lemma concat_preorder_list_all2:
  "list_all2 (\<lambda>c crs. list_all2 R crs (preorder c)) cs rss
     \<Longrightarrow> list_all2 R (concat rss) (preorder_list cs)"
  by (induction cs rss rule: list_all2_induct) (auto intro: list_all2_appendI)

lemma flatten_records:
  "flatten_structure_tree n p = Inr rs \<Longrightarrow> list_all2 record_of rs (preorder n)"
proof (induction n arbitrary: p rs rule: child_nodes_induct)
  case (node n)
  from flatten_decomp[OF node.prems] obtain r rss where
    rs: "rs = r # concat rss" and r: "record_of r n"
    and ch: "list_all2 (\<lambda>c crs. flatten_structure_tree c (Some (structure_id_path r)) = Inr crs)
           (child_nodes n) rss" by blast
  from ch have "list_all2 (\<lambda>c crs. list_all2 record_of crs (preorder c)) (child_nodes n) rss"
    by (rule list.rel_mono_strong) (auto intro: node.IH)
  then have "list_all2 record_of (concat rss) (preorder_list (child_nodes n))"
    by (rule concat_preorder_list_all2)
  with rs r show ?case by (simp add: preorder_child_nodes[of n])
qed

lemma flatten_well_pathed:
  "flatten_structure_tree n p = Inr rs \<Longrightarrow> well_pathed (start_path p) n rs"
proof (induction n arbitrary: p rs rule: child_nodes_induct)
  case (node n)
  from flatten_decomp[OF node.prems] obtain r rss where
    rs: "rs = r # concat rss" and r: "record_of r n"
    and pth: "structure_id_path r = start_path p @ [node_id n]"
    and ch: "list_all2 (\<lambda>c crs. flatten_structure_tree c (Some (structure_id_path r)) = Inr crs)
           (child_nodes n) rss" by blast
  from ch have "list_all2 (well_pathed (structure_id_path r)) (child_nodes n) rss"
  proof (rule list.rel_mono_strong)
    fix c crs assume "c \<in> set (child_nodes n)"
      "flatten_structure_tree c (Some (structure_id_path r)) = Inr crs"
    from node.IH[OF this] show "well_pathed (structure_id_path r) c crs"
      by (simp add: start_path_def)
  qed
  with r pth show ?case unfolding rs by (rule well_pathed.intros)
qed

lemma flatten_path_ends_in_id:
  "flatten_structure_tree n p = Inr rs \<Longrightarrow> r \<in> set rs
     \<Longrightarrow> structure_id_path r \<noteq> [] \<and> last (structure_id_path r) = structure_id r"
proof (induction n arbitrary: p rs rule: child_nodes_induct)
  case (node n)
  from flatten_decomp[OF node.prems(1)] obtain r0 rss where
    rs: "rs = r0 # concat rss" and r0: "record_of r0 n"
    and pth: "structure_id_path r0 = start_path p @ [node_id n]"
    and ch: "list_all2 (\<lambda>c crs. flatten_structure_tree c (Some (structure_id_path r0)) = Inr crs)
           (child_nodes n) rss" by blast
  show ?case
  proof (cases "r = r0")
    case True
    with r0 pth show ?thesis by (simp add: record_of_def)
  next
    case False
    with node.prems(2) rs obtain crs where crs: "crs \<in> set rss" "r \<in> set crs" by auto
    from crs(1) obtain k where k: "k < length rss" "rss ! k = crs"
      by (auto simp: in_set_conv_nth)
    from ch k have "child_nodes n ! k \<in> set (child_nodes n)"
      "flatten_structure_tree (child_nodes n ! k) (Some (structure_id_path r0)) = Inr crs"
      by (auto simp: list_all2_conv_all_nth)
    from node.IH[OF this crs(2)] show ?thesis .
  qed
qed

lemma flatten_root_record:
  "flatten_structure_tree n p = Inr rs \<Longrightarrow>
     rs \<noteq> [] \<and> structure_id_path (hd rs) = start_path p @ [node_id n] \<and> structure_id (hd rs) = node_id n"
  by (auto dest!: flatten_decomp simp: record_of_def)

lemma extend_children_total:
  "(\<And>c p. c \<in> set cs \<Longrightarrow> \<exists>rs. flatten_structure_tree c p = Inr rs)
     \<Longrightarrow> \<exists>rs. extend_children cs cp entries = Inr rs"
proof (induction cs arbitrary: entries)
  case Nil
  then show ?case by simp
next
  case (Cons c cs)
  from Cons.prems[of c "Some cp"] obtain crs where "flatten_structure_tree c (Some cp) = Inr crs"
    by auto
  moreover have "\<exists>rs. extend_children cs cp (entries @ crs) = Inr rs"
    by (rule Cons.IH) (auto intro: Cons.prems)
  ultimately show ?case by simp
qed

lemma flatten_total:
  "list_all (\<lambda>m. parses (color_hex_triplet m)) (preorder n)
     \<Longrightarrow> \<exists>rs. flatten_structure_tree n p = Inr rs"
proof (induction n arbitrary: p rule: child_nodes_induct)
  case (node n)
  obtain i nm a c ch where n: "n = JNode i nm a c ch" by (cases n)
  from node.prems n obtain rgb where rgb: "hex_to_rgb c = Inr rgb"
    by (auto simp: parses_def split: sum.splits)
  have kids: "\<exists>rs. flatten_structure_tree x q = Inr rs" if "x \<in> set (child_nodes n)" for x q
  proof (rule node.IH[OF that])
    from node.prems that show "list_all (\<lambda>m. parses (color_hex_triplet m)) (preorder x)"
      by (auto simp: preorder_child_nodes[of n] preorder_list_concat list_all_iff)
  qed
  show ?case
  proof (cases ch)
    case None
    with n rgb show ?thesis by (simp add: Let_def)
  next
    case (Some cs)
    have "\<exists>rs. extend_children cs (start_path p @ [i])
        [\<lparr>structure_id = i, name = nm, acronym = a,
           structure_id_path = start_path p @ [i], rgb_triplet = rgb\<rparr>] = Inr rs"
      by (rule extend_children_total) (auto intro: kids simp: child_nodes_def n Some)
    with n rgb Some show ?thesis by (simp add: Let_def start_path_def)
  qed
qed

lemma py_int16_error: "py_int16 s = Inl e \<Longrightarrow> e = ValueError"
  by (auto simp: py_int16_def Let_def split: prod.splits if_splits)

lemma hex_to_rgb_error: "hex_to_rgb s = Inl e \<Longrightarrow> e = ValueError"
  by (auto simp: hex_to_rgb_def Let_def split: sum.splits dest: py_int16_error)

lemma extend_children_error:
  "extend_children cs cp entries = Inl e \<Longrightarrow>
     \<exists>c \<in> set cs. flatten_structure_tree c (Some cp) = Inl e"
  by (induction cs arbitrary: entries) (auto split: sum.splits)

lemma flatten_error: "flatten_structure_tree n p = Inl e \<Longrightarrow> e = ValueError"
proof (induction n arbitrary: p rule: child_nodes_induct)
  case (node n)
  obtain i nm a c ch where n: "n = JNode i nm a c ch" by (cases n)
  show ?case
  proof (cases "hex_to_rgb c")
    case (Inl e')
    with node.prems n show ?thesis by (auto simp: Let_def dest: hex_to_rgb_error)
  next
    case (Inr rgb)
    with node.prems n obtain cs where cs: "ch = Some cs"
      and "\<exists>entries cp. extend_children cs cp entries = Inl e"
      by (auto simp: Let_def split: option.splits)
    then obtain x q where "x \<in> set cs" "flatten_structure_tree x q = Inl e"
      by (auto dest: extend_children_error)
    with cs n show ?thesis by (auto intro: node.IH simp: child_nodes_def)
  qed
qed

lemma flatten_Inr_parses:
  assumes "flatten_structure_tree n p = Inr rs"
  shows "list_all (\<lambda>m. parses (color_hex_triplet m)) (preorder n)"
proof -
  from flatten_records[OF assms] have "\<forall>m \<in> set (preorder n). \<exists>r. record_of r m"
    by (fastforce simp: list_all2_conv_all_nth in_set_conv_nth)
  then show ?thesis by (auto simp: list_all_iff record_of_def parses_def)
qed

lemma flatten_fails:
  assumes "\<not> list_all (\<lambda>m. parses (color_hex_triplet m)) (preorder n)"
  shows "flatten_structure_tree n p = Inl ValueError"
proof (cases "flatten_structure_tree n p")
  case (Inl e)
  then show ?thesis by (auto dest: flatten_error)
next
  case (Inr rs)
  from flatten_Inr_parses[OF this] assms show ?thesis by simp
qed

lemma preorder_list_append: "preorder_list (xs @ ys) = preorder_list xs @ preorder_list ys"
  by (induction xs) auto

lemma preorder_block:
  "m \<in> set (preorder n) \<Longrightarrow> \<exists>before after. preorder n = before @ preorder m @ after"
proof (induction n rule: child_nodes_induct)
  case (node n)
  show ?case
  proof (cases "m = n")
    case True
    then have "preorder n = [] @ preorder m @ []" by simp
    then show ?thesis by blast
  next
    case False
    with node.prems obtain c where c: "c \<in> set (child_nodes n)" "m \<in> set (preorder c)"
      by (auto simp: preorder_child_nodes[of n] preorder_list_concat)
    from node.IH[OF this] obtain b a where ba: "preorder c = b @ preorder m @ a" by blast
    from c(1) obtain xs ys where "child_nodes n = xs @ c # ys" by (auto dest: split_list)
    then have "preorder n = (n # preorder_list xs @ b) @ preorder m @ (a @ preorder_list ys)"
      by (simp add: preorder_child_nodes[of n] preorder_list_append ba)
    then show ?thesis by blast
  qed
qed

lemma records_block:
  assumes "list_all2 record_of rs (preorder n)" "m \<in> set (preorder n)"
  shows "\<exists>before block after. rs = before @ block @ after \<and> list_all2 record_of block (preorder m)"
proof -
  from preorder_block[OF assms(2)] obtain b a where "preorder n = b @ preorder m @ a" by blast
  with assms(1) show ?thesis
    by (auto simp: list_all2_append2)
qed

lemma example_flatten: "flatten_structure_tree example_hierarchy None = Inr example_records"
  by code_simp

text \<open>
  C8: for a string of six hexadecimal digits, after any leading \<open>#\<close> characters,
  \<open>hex_to_rgb\<close> returns three integers between 0 and 255, the \<open>k\<close>-th being the base-16
  value of the \<open>k\<close>-th pair of digits; so, when the colours of a hierarchy have this
  form, every \<open>rgb_triplet\<close> that \<open>flatten_structure_tree\<close> produces is a triple of
  byte values.
\<close>

theorem hex_to_rgb_gives_bytes:
  "(hex_colour s \<longrightarrow>
      hex_to_rgb s = Inr [pair_value (dropWhile (\<lambda>c. c = CHR ''#'') s) 0,
                          pair_value (dropWhile (\<lambda>c. c = CHR ''#'') s) 1,
                          pair_value (dropWhile (\<lambda>c. c = CHR ''#'') s) 2]
      \<and> (\<forall>k. 0 \<le> pair_value (dropWhile (\<lambda>c. c = CHR ''#'') s) k
              \<and> pair_value (dropWhile (\<lambda>c. c = CHR ''#'') s) k \<le> 255))
   \<and> (list_all (\<lambda>m. hex_colour (color_hex_triplet m)) (preorder t)
        \<and> flatten_structure_tree t p = Inr rs \<longrightarrow>
      (\<forall>r \<in> set rs. length (rgb_triplet r) = 3
                     \<and> (\<forall>x \<in> set (rgb_triplet r). 0 \<le> x \<and> x \<le> 255)))"
proof -
  have a: "hex_colour s \<longrightarrow>
      hex_to_rgb s = Inr [pair_value (dropWhile (\<lambda>c. c = CHR ''#'') s) 0,
                          pair_value (dropWhile (\<lambda>c. c = CHR ''#'') s) 1,
                          pair_value (dropWhile (\<lambda>c. c = CHR ''#'') s) 2]
      \<and> (\<forall>k. 0 \<le> pair_value (dropWhile (\<lambda>c. c = CHR ''#'') s) k
              \<and> pair_value (dropWhile (\<lambda>c. c = CHR ''#'') s) k \<le> 255)"
    by (simp add: hex_to_rgb_six pair_value_byte)
  have b: "length (rgb_triplet r) = 3 \<and> (\<forall>x \<in> set (rgb_triplet r). 0 \<le> x \<and> x \<le> 255)"
    if col: "list_all (\<lambda>m. hex_colour (color_hex_triplet m)) (preorder t)"
      and fl: "flatten_structure_tree t p = Inr rs" and r: "r \<in> set rs" for r
  proof -
    from flatten_records[OF fl] r obtain m where m: "m \<in> set (preorder t)" "record_of r m"
      by (fastforce simp: list_all2_conv_all_nth in_set_conv_nth)
    from col m(1) have "hex_colour (color_hex_triplet m)" by (simp add: list_all_iff)
    from hex_to_rgb_six[OF this] m(2) have
      "rgb_triplet r = [pair_value (dropWhile (\<lambda>c. c = CHR ''#'') (color_hex_triplet m)) 0,
           pair_value (dropWhile (\<lambda>c. c = CHR ''#'') (color_hex_triplet m)) 1,
           pair_value (dropWhile (\<lambda>c. c = CHR ''#'') (color_hex_triplet m)) 2]"
      by (simp add: record_of_def)
    then show ?thesis by (simp add: pair_value_byte)
  qed
  from a b show ?thesis by blast
qed

theorem hex_to_rgb_gives_bytes_witness:
  "hex_colour ''#BFDAE3'' \<and> hex_to_rgb ''#BFDAE3'' = Inr [191, 218, 227]
   \<and> list_all (\<lambda>m. hex_colour (color_hex_triplet m)) (preorder example_hierarchy)
   \<and> flatten_structure_tree example_hierarchy None = Inr example_records
   \<and> list_all (\<lambda>r. length (rgb_triplet r) = 3
                    \<and> list_all (\<lambda>x. 0 \<le> x \<and> x \<le> 255) (rgb_triplet r)) example_records"
proof -
  have h1: "hex_colour ''#BFDAE3''" by code_simp
  have h2: "list_all (\<lambda>m. hex_colour (color_hex_triplet m)) (preorder example_hierarchy)"
    by code_simp
  have v: "hex_to_rgb ''#BFDAE3'' = Inr [191, 218, 227]" by code_simp
  from hex_to_rgb_gives_bytes[of "''#BFDAE3''" example_hierarchy None example_records]
    h1 h2 example_flatten v
  show ?thesis by (simp add: list_all_iff)
qed

text \<open>
  C5: in the list returned by \<open>flatten_structure_tree\<close> the path of the root record is
  the one-element list of the root's id, the path of every other record is the path of
  its parent's record followed by its own id, and every path ends in the record's own id.
\<close>

theorem flatten_paths_extend_parent_path:
  "flatten_structure_tree t None = Inr rs \<Longrightarrow>
     well_pathed [] t rs
     \<and> structure_id_path (hd rs) = [node_id t]
     \<and> (\<forall>r \<in> set rs. structure_id_path r \<noteq> []
                         \<and> last (structure_id_path r) = structure_id r)"
  using flatten_well_pathed[of t None rs] flatten_root_record[of t None rs]
    flatten_path_ends_in_id[of t None rs]
  by (simp add: start_path_def)

theorem flatten_paths_extend_parent_path_witness:
  "flatten_structure_tree example_hierarchy None = Inr example_records
   \<and> well_pathed [] example_hierarchy example_records
   \<and> structure_id_path (hd example_records) = [node_id example_hierarchy]
   \<and> list_all (\<lambda>r. structure_id_path r \<noteq> [] \<and> last (structure_id_path r) = structure_id r)
        example_records"
  using flatten_paths_extend_parent_path[OF example_flatten] example_flatten
  by (simp add: list_all_iff)

text \<open>
  C10: when every colour string of the hierarchy parses, \<open>flatten_structure_tree\<close>
  returns one record per node, in pre-order: the records of every subtree form a block
  that starts with the record of its root, so that a node's record comes before the
  records of its descendants. When some colour string does not parse it raises
  \<open>ValueError\<close> and returns no record.
\<close>

theorem flatten_is_preorder_when_colours_parse:
  "(list_all (\<lambda>m. parses (color_hex_triplet m)) (preorder t) \<longrightarrow>
      (\<exists>rs. flatten_structure_tree t None = Inr rs
            \<and> length rs = length (preorder t)
            \<and> list_all2 record_of rs (preorder t)
            \<and> (\<forall>m \<in> set (preorder t). \<exists>before block after.
                   rs = before @ block @ after \<and> list_all2 record_of block (preorder m))))
   \<and> (\<not> list_all (\<lambda>m. parses (color_hex_triplet m)) (preorder t) \<longrightarrow>
        flatten_structure_tree t None = Inl ValueError)"
proof -
  have a: "\<exists>rs. flatten_structure_tree t None = Inr rs
            \<and> length rs = length (preorder t)
            \<and> list_all2 record_of rs (preorder t)
            \<and> (\<forall>m \<in> set (preorder t). \<exists>before block after.
                   rs = before @ block @ after \<and> list_all2 record_of block (preorder m))"
    if "list_all (\<lambda>m. parses (color_hex_triplet m)) (preorder t)"
  proof -
    from flatten_total[OF that] obtain rs where rs: "flatten_structure_tree t None = Inr rs"
      by blast
    note rec = flatten_records[OF rs]
    from rec have "length rs = length (preorder t)" by (rule list_all2_lengthD)
    with rs rec records_block[OF rec] show ?thesis by blast
  qed
  with flatten_fails[of t None] show ?thesis by blast
qed

theorem flatten_is_preorder_when_colours_parse_witness:
  "list_all (\<lambda>m. parses (color_hex_triplet m)) (preorder example_hierarchy)
   \<and> flatten_structure_tree example_hierarchy None = Inr example_records
   \<and> list_all2 record_of example_records (preorder example_hierarchy)
   \<and> \<not> list_all (\<lambda>m. parses (color_hex_triplet m))
        (preorder (JNode 1 ''root'' ''r'' ''zz0000'' None))
   \<and> flatten_structure_tree (JNode 1 ''root'' ''r'' ''zz0000'' None) None = Inl ValueError"
proof -
  have h1: "list_all (\<lambda>m. parses (color_hex_triplet m)) (preorder example_hierarchy)"
    by code_simp
  have h2: "\<not> list_all (\<lambda>m. parses (color_hex_triplet m))
        (preorder (JNode 1 ''root'' ''r'' ''zz0000'' None))"
    by code_simp
  from flatten_is_preorder_when_colours_parse[of example_hierarchy] h1 example_flatten
  have "list_all2 record_of example_records (preorder example_hierarchy)" by auto
  with flatten_is_preorder_when_colours_parse[of "JNode 1 ''root'' ''r'' ''zz0000'' None"]
    h1 h2 example_flatten
  show ?thesis by blast
qed

theorem flatten_raises_counterexample:
  "flatten_structure_tree (JNode 1 ''root'' ''r'' ''fff'' None) None = Inl ValueError"
  by code_simp

end
